theory Spec2Isabelle
  imports Complex_Main "HOL-Library.Multiset"
begin

section \<open>Order book state and snapshot ingestion\<close>

text \<open>
  The development embeds the classes \<open>OrderBook\<close> and \<open>MarketImpactCalculator\<close> of
  \<open>main.py\<close>. Python floats are idealised as real numbers (no rounding, no infinities,
  no NaN); every exception the code can raise is a value of \<open>py_error\<close>.
\<close>

datatype py_error = KeyError | ValueError | AttributeError | ZeroDivisionError

text \<open>
  A snapshot is the decoded JSON dictionary handed to \<open>OrderBook.update\<close>. A key that is
  absent from the dictionary is \<open>None\<close>. The conversions \<open>datetime.fromisoformat\<close> and
  \<open>float\<close> belong to the Python library; a raw field records which outcome the library
  conversion has on it and, when it succeeds, the value it yields.
\<close>

datatype raw_timestamp =
    IsoString int      \<comment> \<open>a string that \<open>fromisoformat\<close> parses, with the instant it denotes\<close>
  | BadString          \<comment> \<open>a string that \<open>fromisoformat\<close> rejects with \<open>ValueError\<close>\<close>
  | NotAString         \<comment> \<open>a JSON value without a \<open>replace\<close> method\<close>

datatype raw_number =
    Numeric real       \<comment> \<open>a value that \<open>float\<close> converts\<close>
  | NonNumeric         \<comment> \<open>a string that \<open>float\<close> rejects with \<open>ValueError\<close>\<close>

type_synonym raw_level = "raw_number \<times> raw_number"
type_synonym level = "real \<times> real"

record snapshot =
  snap_timestamp :: "raw_timestamp option"
  snap_symbol :: "string option"
  snap_exchange :: "string option"
  snap_asks :: "raw_level list option"
  snap_bids :: "raw_level list option"

record OrderBook =
  asks :: "level list"
  bids :: "level list"
  timestamp :: "int option"
  symbol :: string
  exchange :: string
  last_update_time :: real
  price_history :: "(real \<times> real) list"
  spread_history :: "(real \<times> real) list"
  mid_price_history :: "real list"
  volume_history :: "(real \<times> real) list"

definition MAX_ORDERBOOK_LEVELS :: nat where
  "MAX_ORDERBOOK_LEVELS = 50"

definition max_history :: nat where
  "max_history = 300"

text \<open>\<open>OrderBook.__init__\<close>; the argument is the reading of \<open>time.time()\<close>.\<close>

definition OrderBook_init :: "real \<Rightarrow> OrderBook" where
  "OrderBook_init t0 =
     \<lparr> asks = [], bids = [], timestamp = None, symbol = [], exchange = [],
       last_update_time = t0, price_history = [], spread_history = [],
       mid_price_history = [], volume_history = [] \<rparr>"

text \<open>\<open>data[key]\<close> on a dictionary: \<open>KeyError\<close> when the key is absent.\<close>

definition getitem :: "'a option \<Rightarrow> py_error + 'a" where
  "getitem field = (case field of None \<Rightarrow> Inl KeyError | Some v \<Rightarrow> Inr v)"

text \<open>\<open>datetime.fromisoformat(data["timestamp"].replace("Z", "+00:00"))\<close>.\<close>

definition parse_timestamp :: "raw_timestamp option \<Rightarrow> py_error + int" where
  "parse_timestamp field =
     (case getitem field of
        Inl e \<Rightarrow> Inl e
      | Inr NotAString \<Rightarrow> Inl AttributeError
      | Inr BadString \<Rightarrow> Inl ValueError
      | Inr (IsoString t) \<Rightarrow> Inr t)"

definition py_float :: "raw_number \<Rightarrow> py_error + real" where
  "py_float v = (case v of Numeric x \<Rightarrow> Inr x | NonNumeric \<Rightarrow> Inl ValueError)"

text \<open>
  The list comprehension \<open>[(float(price), float(qty)) for price, qty in levels]\<close>: the
  first conversion that raises aborts the whole comprehension.
\<close>

fun parse_levels :: "raw_level list \<Rightarrow> py_error + level list" where
  "parse_levels [] = Inr []"
| "parse_levels ((price, qty) # rest) =
     (case py_float price of
        Inl e \<Rightarrow> Inl e
      | Inr p \<Rightarrow>
          (case py_float qty of
             Inl e \<Rightarrow> Inl e
           | Inr q \<Rightarrow>
               (case parse_levels rest of
                  Inl e \<Rightarrow> Inl e
                | Inr ls \<Rightarrow> Inr ((p, q) # ls))))"

text \<open>\<open>data[key][:MAX_ORDERBOOK_LEVELS]\<close> followed by the comprehension.\<close>

definition read_levels :: "raw_level list option \<Rightarrow> py_error + level list" where
  "read_levels field =
     (case getitem field of
        Inl e \<Rightarrow> Inl e
      | Inr raw \<Rightarrow> parse_levels (take MAX_ORDERBOOK_LEVELS raw))"

text \<open>
  \<open>list.sort\<close> is stable, also with \<open>reverse=True\<close>: levels of equal price keep their
  order. \<open>sort_key\<close> is a stable insertion sort; descending order is ascending order of
  the negated price.
\<close>

definition sort_asks :: "level list \<Rightarrow> level list" where
  "sort_asks ls = sort_key fst ls"

definition sort_bids :: "level list \<Rightarrow> level list" where
  "sort_bids ls = sort_key (\<lambda>l. - fst l) ls"

text \<open>The slice \<open>xs[-n:]\<close> for \<open>n > 0\<close>: the last \<open>n\<close> elements, all of them when there are fewer.\<close>

definition last_n :: "nat \<Rightarrow> 'a list \<Rightarrow> 'a list" where
  "last_n n xs = drop (length xs - n) xs"

text \<open>Lines 49 to 69 of \<open>update\<close>: the history bookkeeping on the sorted book.\<close>

definition record_history :: "real \<Rightarrow> OrderBook \<Rightarrow> OrderBook" where
  "record_history current_time s =
     (case (asks s, bids s) of
        ((best_ask, _) # _, (best_bid, _) # _) \<Rightarrow>
          (let mid_price = (best_ask + best_bid) / 2;
               spread = best_ask - best_bid;
               threshold = mid_price * 0.001;
               near_ask_volume =
                 sum_list (map snd (filter (\<lambda>(price, qty). price \<le> mid_price + threshold) (asks s)));
               near_bid_volume =
                 sum_list (map snd (filter (\<lambda>(price, qty). price \<ge> mid_price - threshold) (bids s)));
               s1 = s\<lparr> price_history := price_history s @ [(current_time, mid_price)],
                        spread_history := spread_history s @ [(current_time, spread)],
                        mid_price_history := mid_price_history s @ [mid_price],
                        volume_history :=
                          volume_history s @ [(current_time, near_ask_volume + near_bid_volume)] \<rparr>
           in if length (price_history s1) > max_history
              then s1\<lparr> price_history := last_n max_history (price_history s1),
                       spread_history := last_n max_history (spread_history s1),
                       mid_price_history := last_n max_history (mid_price_history s1),
                       volume_history := last_n max_history (volume_history s1) \<rparr>
              else s1)
      | _ \<Rightarrow> s)"

text \<open>
  \<open>OrderBook.update\<close>. The method mutates the object field by field, so an exception
  leaves the assignments made before it in place: the result is the exception raised,
  if any, together with the state of the object when the method is left. The second
  argument is the reading of \<open>time.time()\<close> at line 46.
\<close>

definition update :: "snapshot \<Rightarrow> real \<Rightarrow> OrderBook \<Rightarrow> py_error option \<times> OrderBook" where
  "update data current_time s =
     (case parse_timestamp (snap_timestamp data) of
        Inl e \<Rightarrow> (Some e, s)
      | Inr ts \<Rightarrow>
     let s1 = s\<lparr>timestamp := Some ts\<rparr> in
     (case getitem (snap_symbol data) of
        Inl e \<Rightarrow> (Some e, s1)
      | Inr symbol_value \<Rightarrow>
     let s2 = s1\<lparr>symbol := symbol_value\<rparr> in
     (case getitem (snap_exchange data) of
        Inl e \<Rightarrow> (Some e, s2)
      | Inr exchange_value \<Rightarrow>
     let s3 = s2\<lparr>exchange := exchange_value\<rparr> in
     (case read_levels (snap_asks data) of
        Inl e \<Rightarrow> (Some e, s3)
      | Inr new_asks \<Rightarrow>
     let s4 = s3\<lparr>asks := new_asks\<rparr> in
     (case read_levels (snap_bids data) of
        Inl e \<Rightarrow> (Some e, s4)
      | Inr new_bids \<Rightarrow>
     let s5 = s4\<lparr>bids := new_bids\<rparr>;
         s6 = s5\<lparr>asks := sort_asks (asks s5)\<rparr>;
         s7 = s6\<lparr>bids := sort_bids (bids s6)\<rparr>;
         s8 = s7\<lparr>last_update_time := current_time\<rparr>
     in (None, record_history current_time s8))))))"

text \<open>
  The receive loop of \<open>TradeSimulator.connect_websocket\<close> applies each decoded message
  to the one order book and carries on after an exception, so the states the book can
  be in are those reached by a sequence of \<open>update\<close> calls from a fresh book.
\<close>

fun feed :: "(snapshot \<times> real) list \<Rightarrow> OrderBook \<Rightarrow> OrderBook" where
  "feed [] s = s"
| "feed ((data, current_time) # rest) s = feed rest (snd (update data current_time s))"

section \<open>Walking the book\<close>

text \<open>
  \<open>str.lower\<close> on the ASCII letters; the characters of a \<open>string\<close> are bytes, and no
  character outside ASCII lower-cases to a letter or digit of a tier or side name.
\<close>

definition lower_char :: "char \<Rightarrow> char" where
  "lower_char c =
     (let n = (of_char c :: nat) in if 65 \<le> n \<and> n \<le> 90 then char_of (n + 32) else c)"

definition lower :: "string \<Rightarrow> string" where
  "lower s = map lower_char s"

text \<open>Float division \<open>a / b\<close>: \<open>ZeroDivisionError\<close> when the divisor is zero.\<close>

definition py_div :: "real \<Rightarrow> real \<Rightarrow> py_error + real" where
  "py_div a b = (if b = 0 then Inl ZeroDivisionError else Inr (a / b))"

text \<open>
  The loop of \<open>get_liquidity_at_level\<close> (lines 80 to 90) on the levels still to visit,
  with the loop variables \<open>remaining_amount\<close>, \<open>executed_quantity\<close> and \<open>total_cost\<close>;
  \<open>break\<close> returns them as they are.
\<close>

fun walk_levels :: "level list \<Rightarrow> real \<Rightarrow> real \<Rightarrow> real \<Rightarrow> py_error + (real \<times> real \<times> real)" where
  "walk_levels [] remaining_amount executed_quantity total_cost =
     Inr (remaining_amount, executed_quantity, total_cost)"
| "walk_levels ((price, quantity) # rest) remaining_amount executed_quantity total_cost =
     (let level_volume = price * quantity in
      if remaining_amount \<le> 0 then Inr (remaining_amount, executed_quantity, total_cost)
      else
        (let take_volume = min remaining_amount level_volume in
         case py_div take_volume price of
           Inl e \<Rightarrow> Inl e
         | Inr take_quantity \<Rightarrow>
             walk_levels rest (remaining_amount - take_volume)
               (executed_quantity + take_quantity) (total_cost + take_quantity * price)))"

text \<open>Line 75: \<open>self.asks if side.lower() == "buy" else self.bids\<close>.\<close>

definition side_levels :: "OrderBook \<Rightarrow> string \<Rightarrow> level list" where
  "side_levels s side = (if lower side = ''buy'' then asks s else bids s)"

definition get_liquidity_at_level ::
    "OrderBook \<Rightarrow> real \<Rightarrow> string \<Rightarrow> py_error + (real \<times> real)" where
  "get_liquidity_at_level s usd_amount side =
     (if asks s = [] \<or> bids s = [] then Inr (0, 0)
      else
        (let levels = side_levels s side in
         case walk_levels levels usd_amount 0 0 of
           Inl e \<Rightarrow> Inl e
         | Inr (remaining_amount, executed_quantity, total_cost) \<Rightarrow>
             (let avg_price =
                    (if executed_quantity > 0 then total_cost / executed_quantity else 0)
              in Inr (avg_price, executed_quantity))))"

text \<open>
  The total notional of a side, in the words of the specification: the sum over its
  levels of price times quantity.
\<close>

definition total_notional :: "level list \<Rightarrow> real" where
  "total_notional levels = sum_list (map (\<lambda>(price, quantity). price * quantity) levels)"

section \<open>Cost estimation\<close>

text \<open>
  \<open>MarketImpactCalculator\<close> holds the order book it reads and the volatility last set.
  \<open>np.sqrt\<close> and \<open>np.exp\<close> are the real square root and exponential; \<open>np.sqrt\<close> of a
  negative number is NaN in the code, which the real numbers do not have, so the
  embedding of \<open>calculate_market_impact\<close> speaks for the code where the ratio under
  the root is not negative.
\<close>

record MarketImpactCalculator =
  orderbook :: OrderBook
  volatility :: real

definition MarketImpactCalculator_init :: "OrderBook \<Rightarrow> MarketImpactCalculator" where
  "MarketImpactCalculator_init ob = \<lparr> orderbook = ob, volatility = 0 \<rparr>"

definition update_volatility :: "real \<Rightarrow> MarketImpactCalculator \<Rightarrow> MarketImpactCalculator" where
  "update_volatility v c = c\<lparr>volatility := v\<rparr>"

definition calculate_slippage :: "MarketImpactCalculator \<Rightarrow> real \<Rightarrow> string \<Rightarrow> py_error + real" where
  "calculate_slippage c quantity side =
     (case (asks (orderbook c), bids (orderbook c)) of
        ((best_ask, _) # _, (best_bid, _) # _) \<Rightarrow>
          (let mid_price = (best_ask + best_bid) / 2 in
           case get_liquidity_at_level (orderbook c) quantity side of
             Inl e \<Rightarrow> Inl e
           | Inr (expected_price, _) \<Rightarrow>
               if expected_price = 0 then Inr 0
               else if side = ''buy'' then
                 (case py_div expected_price mid_price of
                    Inl e \<Rightarrow> Inl e
                  | Inr ratio \<Rightarrow> Inr ((ratio - 1) * 100))
               else
                 (case py_div mid_price expected_price of
                    Inl e \<Rightarrow> Inl e
                  | Inr ratio \<Rightarrow> Inr ((ratio - 1) * 100)))
      | _ \<Rightarrow> Inr 0)"

text \<open>Lines 123 to 128: the estimate of the daily volume.\<close>

definition daily_volume_estimate :: "OrderBook \<Rightarrow> real \<Rightarrow> py_error + real" where
  "daily_volume_estimate ob market_cap =
     (if length (volume_history ob) > 10 then
        (let recent_volumes = map snd (last_n 10 (volume_history ob)) in
         case py_div (sum_list recent_volumes) (real (length recent_volumes)) of
           Inl e \<Rightarrow> Inl e
         | Inr avg_tick_volume \<Rightarrow> Inr (avg_tick_volume * 86400))
      else Inr (market_cap * 0.05))"

definition calculate_market_impact ::
    "MarketImpactCalculator \<Rightarrow> real \<Rightarrow> string \<Rightarrow> real \<Rightarrow> py_error + real" where
  "calculate_market_impact c quantity side market_cap =
     (if mid_price_history (orderbook c) = [] then Inr 0
      else
        (case daily_volume_estimate (orderbook c) market_cap of
           Inl e \<Rightarrow> Inl e
         | Inr dve \<Rightarrow>
             (let sigma = (if volatility c > 0 then volatility c else 0.02);
                  T = 1 / 86400;
                  quantity_in_usd = quantity
              in case py_div quantity_in_usd dve of
                   Inl e \<Rightarrow> Inl e
                 | Inr ratio \<Rightarrow>
                     (let impact_factor = sigma * sqrt T * sqrt ratio;
                          impact_pct = impact_factor * 100
                      in Inr impact_pct))))"

text \<open>Line 149: the taker share as a function of the relative size.\<close>

definition taker_share :: "real \<Rightarrow> real" where
  "taker_share relative_size = 100 / (1 + exp (relative_size - 1))"

text \<open>Lines 144 to 147: top-of-book notional relative to the order, on a two-sided book.\<close>

definition relative_size_of :: "level \<Rightarrow> level \<Rightarrow> real \<Rightarrow> py_error + real" where
  "relative_size_of best_ask_level best_bid_level quantity =
     (let best_ask_size = snd best_ask_level * fst best_ask_level;
          best_bid_size = snd best_bid_level * fst best_bid_level
      in py_div (best_ask_size + best_bid_size) (2 * quantity))"

definition estimate_maker_taker_proportion ::
    "MarketImpactCalculator \<Rightarrow> real \<Rightarrow> py_error + (real \<times> real)" where
  "estimate_maker_taker_proportion c quantity =
     (case (asks (orderbook c), bids (orderbook c)) of
        (a # _, b # _) \<Rightarrow>
          (case relative_size_of a b quantity of
             Inl e \<Rightarrow> Inl e
           | Inr relative_size \<Rightarrow>
               (let taker_pct = taker_share relative_size;
                    maker_pct = 100 - taker_pct
                in Inr (maker_pct, taker_pct)))
      | _ \<Rightarrow> Inr (0, 100))"

record fee_rates =
  maker :: real
  taker :: real

definition fee_structure :: "string \<rightharpoonup> fee_rates" where
  "fee_structure = map_of
     [(''vip0'', \<lparr>maker = 0.0008, taker = 0.0010\<rparr>),
      (''vip1'', \<lparr>maker = 0.0007, taker = 0.0009\<rparr>),
      (''vip2'', \<lparr>maker = 0.0006, taker = 0.0008\<rparr>),
      (''vip3'', \<lparr>maker = 0.0005, taker = 0.0007\<rparr>),
      (''vip4'', \<lparr>maker = 0.0003, taker = 0.0005\<rparr>),
      (''vip5'', \<lparr>maker = 0.0000, taker = 0.0003\<rparr>)]"

text \<open>\<open>fee_structure.get(fee_tier.lower(), fee_structure["vip0"])\<close>.\<close>

definition tier_fees :: "string \<Rightarrow> fee_rates" where
  "tier_fees fee_tier =
     (case fee_structure (lower fee_tier) of
        Some rates \<Rightarrow> rates
      | None \<Rightarrow> \<lparr>maker = 0.0008, taker = 0.0010\<rparr>)"

definition calculate_fees :: "MarketImpactCalculator \<Rightarrow> real \<Rightarrow> string \<Rightarrow> py_error + real" where
  "calculate_fees c quantity fee_tier =
     (let maker_fee = maker (tier_fees fee_tier);
          taker_fee = taker (tier_fees fee_tier)
      in case estimate_maker_taker_proportion c quantity of
           Inl e \<Rightarrow> Inl e
         | Inr (maker_pct, taker_pct) \<Rightarrow>
             (let weighted_fee_rate = (maker_pct / 100 * maker_fee) + (taker_pct / 100 * taker_fee);
                  fee_pct = weighted_fee_rate * 100
              in Inr fee_pct))"

record CostReport =
  slippage_pct :: real
  fee_pct :: real
  market_impact_pct :: real
  maker_pct :: real
  taker_pct :: real
  net_cost_pct :: real

text \<open>
  \<open>get_net_cost(quantity, fee_tier, side)\<close>; the market impact is asked for with the
  default \<open>market_cap\<close> of \<open>1e10\<close>. An exception of a sub-computation leaves the method.
\<close>

definition get_net_cost ::
    "MarketImpactCalculator \<Rightarrow> real \<Rightarrow> string \<Rightarrow> string \<Rightarrow> py_error + CostReport" where
  "get_net_cost c quantity fee_tier side =
     (case calculate_slippage c quantity side of
        Inl e \<Rightarrow> Inl e
      | Inr slippage \<Rightarrow>
     (case calculate_fees c quantity fee_tier of
        Inl e \<Rightarrow> Inl e
      | Inr fee \<Rightarrow>
     (case calculate_market_impact c quantity side 10000000000 of
        Inl e \<Rightarrow> Inl e
      | Inr market_impact \<Rightarrow>
     (case estimate_maker_taker_proportion c quantity of
        Inl e \<Rightarrow> Inl e
      | Inr (maker_share, taker_part) \<Rightarrow>
          Inr \<lparr> slippage_pct = slippage, fee_pct = fee, market_impact_pct = market_impact,
                maker_pct = maker_share, taker_pct = taker_part,
                net_cost_pct = slippage + fee + market_impact \<rparr>))))"

section \<open>Notions of the specification\<close>

text \<open>
  The four series kept by \<open>update\<close> (\<open>price_history\<close> holds the mid price with its
  time, \<open>mid_price_history\<close> the mid price alone) have one length, at most the capacity.
\<close>

definition history_aligned :: "OrderBook \<Rightarrow> bool" where
  "history_aligned s \<longleftrightarrow>
     length (spread_history s) = length (price_history s)
   \<and> length (mid_price_history s) = length (price_history s)
   \<and> length (volume_history s) = length (price_history s)
   \<and> length (price_history s) \<le> max_history"

text \<open>
  The price levels of the specification's data model: a positive price and a
  non-negative quantity.
\<close>

definition well_formed_levels :: "level list \<Rightarrow> bool" where
  "well_formed_levels levels =
     list_all (\<lambda>(price, quantity). 0 < price \<and> 0 \<le> quantity) levels"

section \<open>Sample inputs\<close>

text \<open>A well-formed snapshot with the given raw levels.\<close>

definition snapshot_of :: "raw_level list \<Rightarrow> raw_level list \<Rightarrow> snapshot" where
  "snapshot_of raw_asks raw_bids =
     \<lparr> snap_timestamp = Some (IsoString 0), snap_symbol = Some ''BTC-USDT-SWAP'',
       snap_exchange = Some ''OKX'', snap_asks = Some raw_asks, snap_bids = Some raw_bids \<rparr>"

text \<open>A two-sided snapshot whose levels arrive out of price order.\<close>

definition shuffled :: snapshot where
  "shuffled = snapshot_of
     [(Numeric 102, Numeric 1), (Numeric 101, Numeric 2), (Numeric 103, Numeric 1)]
     [(Numeric 99, Numeric 1), (Numeric 100, Numeric 3), (Numeric 98, Numeric 1)]"

text \<open>A snapshot whose only bid has a quantity that is not a number.\<close>

definition bad_bid :: snapshot where
  "bad_bid = snapshot_of
     [(Numeric 102, Numeric 1), (Numeric 101, Numeric 2)] [(Numeric 99, NonNumeric)]"

text \<open>
  A snapshot with 51 asks, priced 101 to 150 in the first 50 places and 100, the best
  price of all, in the last place.
\<close>

definition deep_asks :: "raw_level list" where
  "deep_asks =
     map (\<lambda>i. (Numeric (real i), Numeric 1)) [101..<151] @ [(Numeric 100, Numeric 1)]"

definition deep :: snapshot where
  "deep = snapshot_of deep_asks [(Numeric 99, Numeric 1)]"

text \<open>The same with a price that is not a number in the last place.\<close>

definition late_bad_asks :: "raw_level list" where
  "late_bad_asks =
     map (\<lambda>i. (Numeric (real i), Numeric 1)) [101..<151] @ [(NonNumeric, Numeric 1)]"

text \<open>The book after one snapshot that has asks and no bids.\<close>

definition one_sided :: OrderBook where
  "one_sided = snd (update (snapshot_of [(Numeric 100, Numeric 2)] []) 1 (OrderBook_init 0))"

text \<open>The book of the specification's scenario, as \<open>update\<close> builds it.\<close>

definition scenario_book :: OrderBook where
  "scenario_book =
     snd (update
       (snapshot_of [(Numeric 100, Numeric 2), (Numeric 101, Numeric 3)]
                    [(Numeric 99, Numeric 2), (Numeric 98, Numeric 3)])
       1 (OrderBook_init 0))"

text \<open>
  A snapshot whose best ask and best bid lie further than 0.1 percent from their mid
  price 150, so that no quantity counts as near-touch volume; and one whose best ask and
  best bid lie within 0.1 percent of their mid price 100, so that both quantities count.
\<close>

definition wide :: snapshot where
  "wide = snapshot_of [(Numeric 200, Numeric 1)] [(Numeric 100, Numeric 1)]"

definition tight :: snapshot where
  "tight = snapshot_of [(Numeric 100.05, Numeric 1)] [(Numeric 99.95, Numeric 1)]"

text \<open>The books after eleven wide snapshots, ten tight ones and eleven tight ones.\<close>

definition quiet_book :: OrderBook where
  "quiet_book = feed (replicate 11 (wide, 1)) (OrderBook_init 0)"

definition ten_ticks :: OrderBook where
  "ten_ticks = feed (replicate 10 (tight, 1)) (OrderBook_init 0)"

definition eleven_ticks :: OrderBook where
  "eleven_ticks = feed (replicate 11 (tight, 1)) (OrderBook_init 0)"

text \<open>
  The calculator as \<open>TradeSimulator\<close> drives it: created on the book, with the
  simulator's volatility of 0.02 set after each update.
\<close>

definition simulator_calculator :: "OrderBook \<Rightarrow> MarketImpactCalculator" where
  "simulator_calculator ob = update_volatility 0.02 (MarketImpactCalculator_init ob)"

section \<open>Properties of \<open>update\<close>\<close>

lemmas update_eval =
  update_def snapshot_of_def OrderBook_init_def parse_timestamp_def getitem_def
  read_levels_def py_float_def sort_asks_def sort_bids_def record_history_def Let_def
  MAX_ORDERBOOK_LEVELS_def max_history_def last_n_def



lemma record_history_book [simp]:
  "asks (record_history t s) = asks s"
  "bids (record_history t s) = bids s"
  "timestamp (record_history t s) = timestamp s"
  "symbol (record_history t s) = symbol s"
  "exchange (record_history t s) = exchange s"
  "last_update_time (record_history t s) = last_update_time s"
  by (simp_all add: record_history_def Let_def split: list.splits prod.splits)

text \<open>What an accepted call has done: every field was read, and the book was replaced.\<close>

lemma update_accepted:
  assumes "fst (update d now s) = None"
  obtains ts sy ex A B where
    "parse_timestamp (snap_timestamp d) = Inr ts"
    "getitem (snap_symbol d) = Inr sy"
    "getitem (snap_exchange d) = Inr ex"
    "read_levels (snap_asks d) = Inr A"
    "read_levels (snap_bids d) = Inr B"
    "snd (update d now s) =
       record_history now
         (s\<lparr>timestamp := Some ts, symbol := sy, exchange := ex,
            asks := sort_asks A, bids := sort_bids B, last_update_time := now\<rparr>)"
  using assms by (auto simp: update_def Let_def split: sum.splits)








subsection \<open>Rejected snapshots\<close>

lemma parse_levels_fails:
  "\<exists>l\<in>set raw. fst l = NonNumeric \<or> snd l = NonNumeric \<Longrightarrow> \<exists>e. parse_levels raw = Inl e"
proof (induction raw)
  case Nil
  then show ?case by simp
next
  case (Cons l raw)
  obtain price qty where l: "l = (price, qty)"
    by (cases l)
  show ?case
  proof (cases "fst l = NonNumeric \<or> snd l = NonNumeric")
    case True
    then show ?thesis
      by (auto simp: l py_float_def split: sum.splits raw_number.splits)
  next
    case False
    with Cons.prems have "\<exists>l\<in>set raw. fst l = NonNumeric \<or> snd l = NonNumeric"
      by auto
    then obtain e where "parse_levels raw = Inl e"
      using Cons.IH by blast
    then show ?thesis
      by (simp add: l split: sum.splits)
  qed
qed

text \<open>The fields no failing call has touched: they are assigned after the last read.\<close>

lemma update_failed_frame:
  assumes "fst (update d now s) = Some e"
  shows "bids (snd (update d now s)) = bids s"
    "last_update_time (snd (update d now s)) = last_update_time s"
    "price_history (snd (update d now s)) = price_history s"
    "spread_history (snd (update d now s)) = spread_history s"
    "mid_price_history (snd (update d now s)) = mid_price_history s"
    "volume_history (snd (update d now s)) = volume_history s"
  using assms by (auto simp: update_def Let_def split: sum.splits)

text \<open>
  Claim C1, as the code has it. A snapshot with a malformed timestamp, a missing symbol
  or exchange, or a non-numeric price or quantity among the first 50 levels of a side
  makes \<open>update\<close> raise. The call leaves the bids, the time of the last update and the
  four history series as they were, and with a malformed timestamp it raises
  \<open>ValueError\<close> and leaves the whole state as it was. (The timestamp, symbol, exchange and asks are assigned as they are
  read, so a later failure finds them already replaced.)
\<close>

theorem update_rejects:
  assumes "snap_timestamp d = Some BadString
         \<or> snap_symbol d = None \<or> snap_exchange d = None
         \<or> (\<exists>raw. snap_asks d = Some raw
               \<and> (\<exists>l\<in>set (take 50 raw). fst l = NonNumeric \<or> snd l = NonNumeric))
         \<or> (\<exists>raw. snap_bids d = Some raw
               \<and> (\<exists>l\<in>set (take 50 raw). fst l = NonNumeric \<or> snd l = NonNumeric))"
  shows "\<exists>e. fst (update d now s) = Some e
       \<and> bids (snd (update d now s)) = bids s
       \<and> last_update_time (snd (update d now s)) = last_update_time s
       \<and> price_history (snd (update d now s)) = price_history s
       \<and> spread_history (snd (update d now s)) = spread_history s
       \<and> mid_price_history (snd (update d now s)) = mid_price_history s
       \<and> volume_history (snd (update d now s)) = volume_history s
       \<and> (snap_timestamp d = Some BadString \<longrightarrow>
            e = ValueError \<and> snd (update d now s) = s)"
proof -
  have fails: "fst (update d now s) \<noteq> None"
  proof
    assume "fst (update d now s) = None"
    then obtain ts sy ex A B where
      "parse_timestamp (snap_timestamp d) = Inr ts"
      "getitem (snap_symbol d) = Inr sy"
      "getitem (snap_exchange d) = Inr ex"
      "read_levels (snap_asks d) = Inr A"
      "read_levels (snap_bids d) = Inr B"
      by (rule update_accepted)
    with assms show False
      using parse_levels_fails
      by (fastforce simp: parse_timestamp_def getitem_def read_levels_def
          MAX_ORDERBOOK_LEVELS_def split: option.splits)
  qed
  then obtain e where e: "fst (update d now s) = Some e"
    by auto
  have "update d now s = (Some ValueError, s)" if "snap_timestamp d = Some BadString"
    using that by (simp add: update_def parse_timestamp_def getitem_def)
  with e update_failed_frame[OF e] show ?thesis
    by auto
qed

lemma update_bad_bid:
  "update bad_bid 1 (OrderBook_init 0) =
     (Some ValueError,
      (OrderBook_init 0)\<lparr>timestamp := Some 0, symbol := ''BTC-USDT-SWAP'', exchange := ''OKX'',
         asks := [(102, 1), (101, 2)]\<rparr>)"
  by (simp add: bad_bid_def update_eval)

theorem update_rejects_witness:
  "snap_bids bad_bid = Some [(Numeric 99, NonNumeric)]
   \<and> (\<exists>e. fst (update bad_bid 1 (OrderBook_init 0)) = Some e
       \<and> bids (snd (update bad_bid 1 (OrderBook_init 0))) = bids (OrderBook_init 0)
       \<and> last_update_time (snd (update bad_bid 1 (OrderBook_init 0))) = 0
       \<and> price_history (snd (update bad_bid 1 (OrderBook_init 0))) = []
       \<and> spread_history (snd (update bad_bid 1 (OrderBook_init 0))) = []
       \<and> mid_price_history (snd (update bad_bid 1 (OrderBook_init 0))) = []
       \<and> volume_history (snd (update bad_bid 1 (OrderBook_init 0))) = [])"
proof -
  have raw: "snap_bids bad_bid = Some [(Numeric 99, NonNumeric)]"
    by (simp add: bad_bid_def snapshot_of_def)
  then have "\<exists>raw. snap_bids bad_bid = Some raw
      \<and> (\<exists>l\<in>set (take 50 raw). fst l = NonNumeric \<or> snd l = NonNumeric)"
    by simp
  then have "snap_timestamp bad_bid = Some BadString
         \<or> snap_symbol bad_bid = None \<or> snap_exchange bad_bid = None
         \<or> (\<exists>raw. snap_asks bad_bid = Some raw
               \<and> (\<exists>l\<in>set (take 50 raw). fst l = NonNumeric \<or> snd l = NonNumeric))
         \<or> (\<exists>raw. snap_bids bad_bid = Some raw
               \<and> (\<exists>l\<in>set (take 50 raw). fst l = NonNumeric \<or> snd l = NonNumeric))"
    by blast
  from update_rejects[OF this, of 1 "OrderBook_init 0"] obtain e where
    "fst (update bad_bid 1 (OrderBook_init 0)) = Some e"
    "bids (snd (update bad_bid 1 (OrderBook_init 0))) = bids (OrderBook_init 0)"
    "last_update_time (snd (update bad_bid 1 (OrderBook_init 0))) =
       last_update_time (OrderBook_init 0)"
    "price_history (snd (update bad_bid 1 (OrderBook_init 0))) = price_history (OrderBook_init 0)"
    "spread_history (snd (update bad_bid 1 (OrderBook_init 0))) = spread_history (OrderBook_init 0)"
    "mid_price_history (snd (update bad_bid 1 (OrderBook_init 0))) =
       mid_price_history (OrderBook_init 0)"
    "volume_history (snd (update bad_bid 1 (OrderBook_init 0))) = volume_history (OrderBook_init 0)"
    by blast
  moreover have "last_update_time (OrderBook_init 0) = 0" "price_history (OrderBook_init 0) = []"
    "spread_history (OrderBook_init 0) = []" "mid_price_history (OrderBook_init 0) = []"
    "volume_history (OrderBook_init 0) = []"
    by (simp_all add: OrderBook_init_def)
  ultimately show ?thesis
    using raw by simp
qed

text \<open>
  The claim as the specification words it fails: a non-numeric bid quantity makes the
  call raise after the timestamp, the symbol, the exchange and the (still unsorted) asks
  of the snapshot have been stored.
\<close>

theorem update_not_atomic:
  "fst (update bad_bid 1 (OrderBook_init 0)) = Some ValueError
   \<and> asks (snd (update bad_bid 1 (OrderBook_init 0))) = [(102, 1), (101, 2)]
   \<and> asks (OrderBook_init 0) = []
   \<and> timestamp (snd (update bad_bid 1 (OrderBook_init 0))) = Some 0
   \<and> timestamp (OrderBook_init 0) = None
   \<and> snd (update bad_bid 1 (OrderBook_init 0)) \<noteq> OrderBook_init 0"
  by (simp add: update_bad_bid) (simp add: OrderBook_init_def)

subsection \<open>Truncation comes before sorting\<close>

lemma parse_levels_numeric:
  "parse_levels (map (\<lambda>x. (Numeric (f x), Numeric (g x))) xs) = Inr (map (\<lambda>x. (f x, g x)) xs)"
  by (induction xs) (simp_all add: py_float_def)

lemma read_levels_Some: "read_levels (Some raw) = parse_levels (take 50 raw)"
  by (simp add: read_levels_def getitem_def MAX_ORDERBOOK_LEVELS_def)

lemma read_deep: "read_levels (Some deep_asks) = Inr (map (\<lambda>i. (real i, 1)) [101..<151])"
proof -
  have "take 50 deep_asks = map (\<lambda>i. (Numeric (real i), Numeric 1)) [101..<151]"
    by (simp add: deep_asks_def del: upt_rec_numeral)
  then show ?thesis
    by (simp only: read_levels_Some parse_levels_numeric)
qed

lemma update_accepted_iff:
  "fst (update d now s) = None \<longleftrightarrow>
     (\<exists>ts sy ex A B. parse_timestamp (snap_timestamp d) = Inr ts \<and> getitem (snap_symbol d) = Inr sy
        \<and> getitem (snap_exchange d) = Inr ex \<and> read_levels (snap_asks d) = Inr A
        \<and> read_levels (snap_bids d) = Inr B)"
  by (auto simp: update_def Let_def split: sum.splits)

lemma update_deep_ok: "fst (update deep 1 (OrderBook_init 0)) = None"
  by (simp add: update_accepted_iff deep_def snapshot_of_def read_deep parse_timestamp_def
      getitem_def)
     (simp add: read_levels_Some py_float_def)

lemma update_shuffled_book:
  "fst (update shuffled t s) = None"
  "asks (snd (update shuffled t s)) = [(101, 2), (102, 1), (103, 1)]"
  "bids (snd (update shuffled t s)) = [(100, 3), (99, 1), (98, 1)]"
  by (simp_all add: shuffled_def update_def snapshot_of_def parse_timestamp_def getitem_def
      read_levels_def py_float_def sort_asks_def sort_bids_def Let_def MAX_ORDERBOOK_LEVELS_def)

text \<open>A level that is not a number does no harm past the first 50: it is never converted.\<close>

lemma update_accepts_late_non_numeric:
  "fst (update (snapshot_of late_bad_asks [(Numeric 99, Numeric 1)]) 1 (OrderBook_init 0)) = None"
proof -
  have "take 50 late_bad_asks = map (\<lambda>i. (Numeric (real i), Numeric 1)) [101..<151]"
    by (simp add: late_bad_asks_def del: upt_rec_numeral)
  then have "read_levels (Some late_bad_asks) = Inr (map (\<lambda>i. (real i, 1)) [101..<151])"
    by (simp only: read_levels_Some parse_levels_numeric)
  then show ?thesis
    by (simp add: update_accepted_iff snapshot_of_def parse_timestamp_def getitem_def)
       (simp add: read_levels_Some py_float_def)
qed

text \<open>
  Claim C10. An accepted \<open>update\<close> keeps, on each side, exactly the first 50 levels of
  the snapshot in their order of arrival (converted to numbers) and then sorts them: the
  book holds those levels and no others. They need not be the best-priced ones: of the 51
  asks of \<open>deep\<close> the cheapest comes last, and the book built from it holds no ask at that
  price.
\<close>

theorem update_keeps_first_levels:
  "(fst (update d now s) = None \<longrightarrow>
      (\<exists>raw_asks raw_bids A B.
          snap_asks d = Some raw_asks \<and> snap_bids d = Some raw_bids
        \<and> parse_levels (take 50 raw_asks) = Inr A \<and> parse_levels (take 50 raw_bids) = Inr B
        \<and> asks (snd (update d now s)) = sort_asks A \<and> bids (snd (update d now s)) = sort_bids B
        \<and> mset (asks (snd (update d now s))) = mset A
        \<and> mset (bids (snd (update d now s))) = mset B))
   \<and> (fst (update deep 1 (OrderBook_init 0)) = None
      \<and> snap_asks deep = Some deep_asks
      \<and> length deep_asks = 51
      \<and> (Numeric 100, Numeric 1) \<in> set deep_asks
      \<and> (100, 1) \<notin> set (asks (snd (update deep 1 (OrderBook_init 0))))
      \<and> list_all (\<lambda>l. 100 < fst l) (asks (snd (update deep 1 (OrderBook_init 0)))))"
proof -
  have general: "\<exists>raw_asks raw_bids A B.
          snap_asks d = Some raw_asks \<and> snap_bids d = Some raw_bids
        \<and> parse_levels (take 50 raw_asks) = Inr A \<and> parse_levels (take 50 raw_bids) = Inr B
        \<and> asks (snd (update d now s)) = sort_asks A \<and> bids (snd (update d now s)) = sort_bids B
        \<and> mset (asks (snd (update d now s))) = mset A
        \<and> mset (bids (snd (update d now s))) = mset B"
    if acc: "fst (update d now s) = None"
  proof -
    from acc obtain ts sy ex A B where
      A: "read_levels (snap_asks d) = Inr A" and B: "read_levels (snap_bids d) = Inr B"
      and s': "snd (update d now s) =
         record_history now
           (s\<lparr>timestamp := Some ts, symbol := sy, exchange := ex,
              asks := sort_asks A, bids := sort_bids B, last_update_time := now\<rparr>)"
      by (rule update_accepted)
    from A obtain raw_asks where
      ra: "snap_asks d = Some raw_asks" "parse_levels (take 50 raw_asks) = Inr A"
      by (auto simp: read_levels_def getitem_def MAX_ORDERBOOK_LEVELS_def split: option.splits)
    from B obtain raw_bids where
      rb: "snap_bids d = Some raw_bids" "parse_levels (take 50 raw_bids) = Inr B"
      by (auto simp: read_levels_def getitem_def MAX_ORDERBOOK_LEVELS_def split: option.splits)
    show ?thesis
      using ra rb by (simp add: s' sort_asks_def sort_bids_def)
  qed
  have acc: "fst (update deep 1 (OrderBook_init 0)) = None"
    by (rule update_deep_ok)
  then obtain ts sy ex A B where
      A: "read_levels (snap_asks deep) = Inr A"
      and s': "snd (update deep 1 (OrderBook_init 0)) =
         record_history 1
           ((OrderBook_init 0)\<lparr>timestamp := Some ts, symbol := sy, exchange := ex,
              asks := sort_asks A, bids := sort_bids B, last_update_time := 1\<rparr>)"
    by (rule update_accepted)
  have A': "A = map (\<lambda>i. (real i, 1)) [101..<151]"
    using A by (simp add: deep_def snapshot_of_def read_deep)
  have set_asks:
    "set (asks (snd (update deep 1 (OrderBook_init 0)))) = (\<lambda>i. (real i, 1)) ` {101..<151}"
    by (simp add: s' A' sort_asks_def del: upt_rec_numeral)
  have "snap_asks deep = Some deep_asks"
    by (simp add: deep_def snapshot_of_def)
  moreover have "length deep_asks = 51" "(Numeric 100, Numeric 1) \<in> set deep_asks"
    by (simp_all add: deep_asks_def del: upt_rec_numeral)
  moreover have "(100, 1) \<notin> set (asks (snd (update deep 1 (OrderBook_init 0))))"
    by (auto simp: set_asks)
  moreover have "list_all (\<lambda>l. 100 < fst l) (asks (snd (update deep 1 (OrderBook_init 0))))"
    by (auto simp: list_all_iff set_asks)
  ultimately show ?thesis
    using general acc by blast
qed

theorem update_keeps_first_levels_witness:
  "fst (update shuffled 1 (OrderBook_init 0)) = None
   \<and> (\<exists>raw_asks raw_bids A B.
          snap_asks shuffled = Some raw_asks \<and> snap_bids shuffled = Some raw_bids
        \<and> parse_levels (take 50 raw_asks) = Inr A \<and> parse_levels (take 50 raw_bids) = Inr B
        \<and> asks (snd (update shuffled 1 (OrderBook_init 0))) = sort_asks A
        \<and> bids (snd (update shuffled 1 (OrderBook_init 0))) = sort_bids B
        \<and> mset (asks (snd (update shuffled 1 (OrderBook_init 0)))) = mset A
        \<and> mset (bids (snd (update shuffled 1 (OrderBook_init 0)))) = mset B)"
  using update_keeps_first_levels[of shuffled 1 "OrderBook_init 0"]
    update_shuffled_book(1)[of 1 "OrderBook_init 0"]
  by blast


subsection \<open>Bounded history\<close>

lemma last_n_id: "length xs \<le> n \<Longrightarrow> last_n n xs = xs"
  by (simp add: last_n_def)

lemma length_last_n: "length (last_n n xs) = min n (length xs)"
  by (simp add: last_n_def)

lemma record_history_skip: "asks s = [] \<or> bids s = [] \<Longrightarrow> record_history t s = s"
  by (auto simp: record_history_def split: list.splits)

lemma record_history_append:
  assumes "asks s = (best_ask, qa) # as" "bids s = (best_bid, qb) # bs"
    and "history_aligned s"
  shows "price_history (record_history t s) =
           last_n max_history (price_history s @ [(t, (best_ask + best_bid) / 2)])"
    "spread_history (record_history t s) =
           last_n max_history (spread_history s @ [(t, best_ask - best_bid)])"
    "mid_price_history (record_history t s) =
           last_n max_history (mid_price_history s @ [(best_ask + best_bid) / 2])"
    "\<exists>v. volume_history (record_history t s) = last_n max_history (volume_history s @ [(t, v)])"
  using assms
  by (auto simp: record_history_def history_aligned_def Let_def last_n_id)

lemma record_history_aligned:
  assumes "history_aligned s"
  shows "history_aligned (record_history t s)"
proof (cases "asks s = [] \<or> bids s = []")
  case True
  then show ?thesis
    using assms by (simp add: record_history_skip)
next
  case False
  then obtain best_ask qa as best_bid qb bs where
    "asks s = (best_ask, qa) # as" "bids s = (best_bid, qb) # bs"
    by (cases "asks s"; cases "bids s") auto
  from record_history_append[OF this assms, of t] assms show ?thesis
    by (auto simp: history_aligned_def length_last_n)
qed

lemma update_aligned:
  assumes "history_aligned s"
  shows "history_aligned (snd (update d now s))"
proof (cases "fst (update d now s)")
  case None
  then obtain ts sy ex A B where
    s': "snd (update d now s) =
       record_history now
         (s\<lparr>timestamp := Some ts, symbol := sy, exchange := ex,
            asks := sort_asks A, bids := sort_bids B, last_update_time := now\<rparr>)"
    by (rule update_accepted)
  have "history_aligned (s\<lparr>timestamp := Some ts, symbol := sy, exchange := ex,
            asks := sort_asks A, bids := sort_bids B, last_update_time := now\<rparr>)"
    using assms by (simp add: history_aligned_def)
  then show ?thesis
    unfolding s' by (rule record_history_aligned)
next
  case (Some e)
  from update_failed_frame[OF this] assms show ?thesis
    by (simp add: history_aligned_def)
qed

lemma feed_aligned: "history_aligned s \<Longrightarrow> history_aligned (feed ds s)"
  by (induction ds s rule: feed.induct) (simp_all add: update_aligned)

lemma init_aligned: "history_aligned (OrderBook_init t0)"
  by (simp add: history_aligned_def OrderBook_init_def)

text \<open>
  Claim C6. In every state the book can reach, a further call of \<open>update\<close> leaves the
  history series with one common length, at most 300. When the call accepts the snapshot
  and both sides of the new book are non-empty, each series is the old one with one new
  entry appended, cut to its latest 300 entries in their order; in every other case the
  series stay as they were. An accepted snapshot replaces the book whether or not it
  appends.
\<close>

theorem history_bookkeeping:
  assumes s: "s = feed ds (OrderBook_init t0)" and s': "s' = snd (update d now s)"
  shows "length (spread_history s') = length (price_history s')
       \<and> length (mid_price_history s') = length (price_history s')
       \<and> length (volume_history s') = length (price_history s')
       \<and> length (price_history s') \<le> 300
       \<and> (fst (update d now s) = None \<and> asks s' \<noteq> [] \<and> bids s' \<noteq> [] \<longrightarrow>
            (\<exists>v. price_history s' =
                   last_n 300 (price_history s @ [(now, (fst (hd (asks s')) + fst (hd (bids s'))) / 2)])
               \<and> spread_history s' =
                   last_n 300 (spread_history s @ [(now, fst (hd (asks s')) - fst (hd (bids s')))])
               \<and> mid_price_history s' =
                   last_n 300 (mid_price_history s @ [(fst (hd (asks s')) + fst (hd (bids s'))) / 2])
               \<and> volume_history s' = last_n 300 (volume_history s @ [(now, v)])))
       \<and> (fst (update d now s) \<noteq> None \<or> asks s' = [] \<or> bids s' = [] \<longrightarrow>
            price_history s' = price_history s \<and> spread_history s' = spread_history s
          \<and> mid_price_history s' = mid_price_history s \<and> volume_history s' = volume_history s)
       \<and> (fst (update d now s) = None \<longrightarrow>
            (\<exists>A B. read_levels (snap_asks d) = Inr A \<and> read_levels (snap_bids d) = Inr B
               \<and> asks s' = sort_asks A \<and> bids s' = sort_bids B))"
proof -
  have inv: "history_aligned s"
    unfolding s by (rule feed_aligned) (rule init_aligned)
  then have "history_aligned s'"
    unfolding s' by (rule update_aligned)
  then have lengths: "length (spread_history s') = length (price_history s')
       \<and> length (mid_price_history s') = length (price_history s')
       \<and> length (volume_history s') = length (price_history s')
       \<and> length (price_history s') \<le> 300"
    by (simp add: history_aligned_def max_history_def)
  have failed: "price_history s' = price_history s \<and> spread_history s' = spread_history s
          \<and> mid_price_history s' = mid_price_history s \<and> volume_history s' = volume_history s"
    if "fst (update d now s) \<noteq> None"
  proof -
    from that obtain e where "fst (update d now s) = Some e"
      by auto
    from update_failed_frame[OF this] show ?thesis
      by (simp add: s')
  qed
  have accepted: "(\<exists>A B. read_levels (snap_asks d) = Inr A \<and> read_levels (snap_bids d) = Inr B
               \<and> asks s' = sort_asks A \<and> bids s' = sort_bids B)
      \<and> (asks s' \<noteq> [] \<and> bids s' \<noteq> [] \<longrightarrow>
            (\<exists>v. price_history s' =
                   last_n 300 (price_history s @ [(now, (fst (hd (asks s')) + fst (hd (bids s'))) / 2)])
               \<and> spread_history s' =
                   last_n 300 (spread_history s @ [(now, fst (hd (asks s')) - fst (hd (bids s')))])
               \<and> mid_price_history s' =
                   last_n 300 (mid_price_history s @ [(fst (hd (asks s')) + fst (hd (bids s'))) / 2])
               \<and> volume_history s' = last_n 300 (volume_history s @ [(now, v)])))
      \<and> (asks s' = [] \<or> bids s' = [] \<longrightarrow>
            price_history s' = price_history s \<and> spread_history s' = spread_history s
          \<and> mid_price_history s' = mid_price_history s \<and> volume_history s' = volume_history s)"
    if acc: "fst (update d now s) = None"
  proof -
    from acc obtain ts sy ex A B where
      A: "read_levels (snap_asks d) = Inr A" and B: "read_levels (snap_bids d) = Inr B"
      and upd: "snd (update d now s) =
         record_history now
           (s\<lparr>timestamp := Some ts, symbol := sy, exchange := ex,
              asks := sort_asks A, bids := sort_bids B, last_update_time := now\<rparr>)"
      by (rule update_accepted)
    define m where "m = s\<lparr>timestamp := Some ts, symbol := sy, exchange := ex,
              asks := sort_asks A, bids := sort_bids B, last_update_time := now\<rparr>"
    have s'm: "s' = record_history now m"
      by (simp add: s' upd m_def)
    have m_inv: "history_aligned m"
      using inv by (simp add: m_def history_aligned_def)
    have m_hist: "price_history m = price_history s" "spread_history m = spread_history s"
      "mid_price_history m = mid_price_history s" "volume_history m = volume_history s"
      by (simp_all add: m_def)
    have book: "asks s' = asks m" "bids s' = bids m" "asks m = sort_asks A" "bids m = sort_bids B"
      by (simp_all add: s'm m_def)
    have one: "price_history s' = price_history s \<and> spread_history s' = spread_history s
          \<and> mid_price_history s' = mid_price_history s \<and> volume_history s' = volume_history s"
      if "asks s' = [] \<or> bids s' = []"
    proof -
      from that have "record_history now m = m"
        by (intro record_history_skip) (simp add: book)
      then show ?thesis
        by (simp add: s'm m_hist)
    qed
    have two: "\<exists>v. price_history s' =
                   last_n 300 (price_history s @ [(now, (fst (hd (asks s')) + fst (hd (bids s'))) / 2)])
               \<and> spread_history s' =
                   last_n 300 (spread_history s @ [(now, fst (hd (asks s')) - fst (hd (bids s')))])
               \<and> mid_price_history s' =
                   last_n 300 (mid_price_history s @ [(fst (hd (asks s')) + fst (hd (bids s'))) / 2])
               \<and> volume_history s' = last_n 300 (volume_history s @ [(now, v)])"
      if "asks s' \<noteq> []" "bids s' \<noteq> []"
    proof -
      from that obtain best_ask qa as best_bid qb bs where
        sides: "asks m = (best_ask, qa) # as" "bids m = (best_bid, qb) # bs"
        unfolding book(1,2) by (cases "asks m"; cases "bids m") auto
      from record_history_append[OF sides m_inv, of now] show ?thesis
        by (auto simp: s'm sides m_hist max_history_def)
    qed
    from A B one two show ?thesis
      using book by auto
  qed
  from lengths failed accepted show ?thesis
    by blast
qed

lemma length_update_shuffled:
  assumes "history_aligned s"
  shows "length (price_history (snd (update shuffled t s))) = min 300 (length (price_history s) + 1)"
proof -
  obtain ts sy ex A B where
    s': "snd (update shuffled t s) =
       record_history t
         (s\<lparr>timestamp := Some ts, symbol := sy, exchange := ex,
            asks := sort_asks A, bids := sort_bids B, last_update_time := t\<rparr>)"
    using update_shuffled_book(1) by (rule update_accepted)
  define m where "m = s\<lparr>timestamp := Some ts, symbol := sy, exchange := ex,
            asks := sort_asks A, bids := sort_bids B, last_update_time := t\<rparr>"
  have sides: "asks m = (101, 2) # [(102, 1), (103, 1)]" "bids m = (100, 3) # [(99, 1), (98, 1)]"
    using update_shuffled_book(2,3)[of t s] by (simp_all add: s' m_def)
  have "history_aligned m"
    using assms by (simp add: m_def history_aligned_def)
  moreover have "price_history m = price_history s"
    by (simp add: m_def)
  ultimately show ?thesis
    using record_history_append(1)[OF sides, of t]
    by (simp add: s' m_def[symmetric] length_last_n max_history_def)
qed

lemma length_feed_shuffled:
  "history_aligned s \<Longrightarrow>
   length (price_history (feed (replicate n (shuffled, t)) s)) = min 300 (length (price_history s) + n)"
proof (induction n arbitrary: s)
  case 0
  then show ?case
    by (simp add: history_aligned_def max_history_def)
next
  case (Suc n)
  have "history_aligned (snd (update shuffled t s))"
    using Suc.prems by (rule update_aligned)
  from Suc.IH[OF this] length_update_shuffled[OF Suc.prems, of t] show ?case
    by simp
qed

theorem history_bookkeeping_witness:
  "length (mid_price_history (feed (replicate 300 (shuffled, 1)) (OrderBook_init 0))) = 300
   \<and> length (mid_price_history
        (snd (update shuffled 2 (feed (replicate 300 (shuffled, 1)) (OrderBook_init 0))))) = 300
   \<and> mid_price_history
        (snd (update shuffled 2 (feed (replicate 300 (shuffled, 1)) (OrderBook_init 0)))) =
      tl (mid_price_history (feed (replicate 300 (shuffled, 1)) (OrderBook_init 0))) @ [201 / 2]"
proof -
  define s where "s = feed (replicate 300 (shuffled, 1)) (OrderBook_init 0)"
  define s' where "s' = snd (update shuffled 2 s)"
  note book = update_shuffled_book[of 2 s]
  have inv: "history_aligned s"
    unfolding s_def by (rule feed_aligned) (rule init_aligned)
  have "price_history (OrderBook_init 0) = []"
    by (simp add: OrderBook_init_def)
  then have "length (price_history s) = 300"
    unfolding s_def by (simp add: length_feed_shuffled[OF init_aligned])
  with inv have full: "length (mid_price_history s) = 300"
    by (simp add: history_aligned_def)
  from history_bookkeeping[OF s_def s'_def] book
  have "mid_price_history s' = last_n 300 (mid_price_history s @ [201 / 2])"
    by (simp add: s'_def)
  moreover have "last_n 300 (mid_price_history s @ [201 / 2]) = tl (mid_price_history s) @ [201 / 2]"
    using full by (cases "mid_price_history s") (simp_all add: last_n_def)
  ultimately have "mid_price_history s' = tl (mid_price_history s) @ [201 / 2]"
    by simp
  with full show ?thesis
    by (simp add: s_def s'_def)
qed

section \<open>Properties of the liquidity walk\<close>

lemma total_notional_nonneg: "well_formed_levels ls \<Longrightarrow> 0 \<le> total_notional ls"
  by (induction ls) (auto simp: well_formed_levels_def total_notional_def)

lemma walk_levels_total:
  assumes "well_formed_levels ls" "0 \<le> remaining"
  shows "\<exists>r e c. walk_levels ls remaining executed cost = Inr (r, e, c)
           \<and> c - cost = min remaining (total_notional ls)
           \<and> r = remaining - min remaining (total_notional ls)
           \<and> executed \<le> e \<and> (e = executed \<longrightarrow> c = cost)"
  using assms
proof (induction ls arbitrary: remaining executed cost)
  case Nil
  then show ?case
    by (simp add: total_notional_def)
next
  case (Cons l ls)
  obtain price quantity where l: "l = (price, quantity)"
    by (cases l)
  from Cons.prems have pos: "0 < price" "0 \<le> quantity" and wf: "well_formed_levels ls"
    by (simp_all add: well_formed_levels_def l)
  have N: "0 \<le> total_notional ls"
    using wf by (rule total_notional_nonneg)
  have tn: "total_notional (l # ls) = price * quantity + total_notional ls"
    by (simp add: total_notional_def l)
  have pq: "0 \<le> price * quantity"
    using pos by simp
  show ?case
  proof (cases "remaining \<le> 0")
    case True
    with Cons.prems have "remaining = 0"
      by simp
    moreover have "min 0 (total_notional (l # ls)) = 0"
      using N pq by (simp add: tn)
    ultimately show ?thesis
      by (simp add: l)
  next
    case False
    define take_volume where "take_volume = min remaining (price * quantity)"
    have tv: "0 \<le> take_volume" "take_volume \<le> remaining"
      using False pq by (simp_all add: take_volume_def)
    then have rem': "0 \<le> remaining - take_volume"
      by simp
    from Cons.IH[OF wf rem', of "executed + take_volume / price" "cost + take_volume / price * price"]
    obtain r e c where
      w: "walk_levels ls (remaining - take_volume) (executed + take_volume / price)
            (cost + take_volume / price * price) = Inr (r, e, c)"
      and c: "c - (cost + take_volume / price * price) = min (remaining - take_volume) (total_notional ls)"
      and r: "r = remaining - take_volume - min (remaining - take_volume) (total_notional ls)"
      and e: "executed + take_volume / price \<le> e"
      and ec: "e = executed + take_volume / price \<longrightarrow> c = cost + take_volume / price * price"
      by blast
    have step: "walk_levels (l # ls) remaining executed cost = Inr (r, e, c)"
      using False pos w by (simp add: l py_div_def take_volume_def Let_def)
    have cancel: "take_volume / price * price = take_volume"
      using pos by simp
    have split: "take_volume + min (remaining - take_volume) (total_notional ls)
        = min remaining (price * quantity + total_notional ls)"
      using N by (auto simp: take_volume_def min_def)
    have tq: "0 \<le> take_volume / price"
      using tv pos by simp
    have "c - cost = min remaining (total_notional (l # ls))"
      using c split unfolding cancel tn by linarith
    moreover have "r = remaining - min remaining (total_notional (l # ls))"
      using r split unfolding tn by linarith
    moreover have "executed \<le> e"
      using e tq by linarith
    moreover have "e = executed \<longrightarrow> c = cost"
    proof
      assume "e = executed"
      with e tq have z: "take_volume / price = 0"
        by linarith
      then have "take_volume = 0"
        using pos by simp
      moreover have "c = cost + take_volume"
        using ec \<open>e = executed\<close> z unfolding cancel by simp
      ultimately show "c = cost"
        by simp
    qed
    ultimately show ?thesis
      using step by blast
  qed
qed

text \<open>
  Claim C3, as the code has it. On a side of well-formed levels and for a notional
  \<open>X > 0\<close>, \<open>get_liquidity_at_level\<close> never raises. When both sides of the book are
  non-empty and the targeted side holds at least \<open>X\<close> of notional, the quantity times
  the average price it returns is \<open>X\<close>; with less depth it is the whole notional of the
  side (a partial fill). When either side of the book is empty, the targeted one or the
  opposite one, it returns \<open>(0, 0)\<close>.
\<close>

theorem liquidity_fill:
  assumes "well_formed_levels (side_levels s side)" and "0 < X"
  shows "\<exists>avg q. get_liquidity_at_level s X side = Inr (avg, q)
       \<and> (asks s = [] \<or> bids s = [] \<longrightarrow> avg = 0 \<and> q = 0)
       \<and> (asks s \<noteq> [] \<and> bids s \<noteq> [] \<and> X \<le> total_notional (side_levels s side) \<longrightarrow>
            q * avg = X)
       \<and> (asks s \<noteq> [] \<and> bids s \<noteq> [] \<and> total_notional (side_levels s side) < X \<longrightarrow>
            q * avg = total_notional (side_levels s side))"
proof (cases "asks s = [] \<or> bids s = []")
  case True
  then show ?thesis
    by (auto simp: get_liquidity_at_level_def)
next
  case False
  from assms have "0 \<le> X"
    by simp
  from walk_levels_total[OF assms(1) this, of 0 0]
  obtain r e c where
    w: "walk_levels (side_levels s side) X 0 0 = Inr (r, e, c)"
    and c: "c = min X (total_notional (side_levels s side))"
    and e: "0 \<le> e" "e = 0 \<longrightarrow> c = 0"
    by auto
  have res: "get_liquidity_at_level s X side = Inr (if e > 0 then c / e else 0, e)"
    using False w by (simp add: get_liquidity_at_level_def)
  have "e * (if e > 0 then c / e else 0) = c"
    using e by (cases "e = 0") auto
  with res c False show ?thesis
    by (auto simp: min_def)
qed

lemma lower_buy: "lower ''buy'' = ''buy''"
  by (simp add: lower_def lower_char_def)

lemma one_sided_book: "asks one_sided = [(100, 2)]" "bids one_sided = []"
  by (simp_all add: one_sided_def update_eval)

lemma scenario_book_sides:
  "asks scenario_book = [(100, 2), (101, 3)]" "bids scenario_book = [(99, 2), (98, 3)]"
  by (simp_all add: scenario_book_def update_eval)

theorem liquidity_fill_witness:
  "well_formed_levels (side_levels scenario_book ''buy'')
   \<and> total_notional (side_levels scenario_book ''buy'') = 503
   \<and> (\<exists>avg q. get_liquidity_at_level scenario_book 150 ''buy'' = Inr (avg, q) \<and> q * avg = 150)"
proof -
  have wf: "well_formed_levels (side_levels scenario_book ''buy'')"
    by (simp add: side_levels_def lower_buy scenario_book_sides well_formed_levels_def)
  have tn: "total_notional (side_levels scenario_book ''buy'') = 503"
    by (simp add: side_levels_def lower_buy scenario_book_sides total_notional_def)
  have "(0::real) < 150"
    by simp
  from liquidity_fill[OF wf this] wf tn show ?thesis
    by (auto simp: scenario_book_sides)
qed

text \<open>
  The claim as the specification words it fails on a book with no bids: the asks hold
  200 of notional, and a buy of 150 is answered with \<open>(0, 0)\<close>.
\<close>

theorem liquidity_needs_both_sides:
  "well_formed_levels (side_levels one_sided ''buy'')
   \<and> total_notional (side_levels one_sided ''buy'') = 200
   \<and> get_liquidity_at_level one_sided 150 ''buy'' = Inr (0, 0)
   \<and> (case get_liquidity_at_level one_sided 150 ''buy'' of
         Inl e \<Rightarrow> False
       | Inr (avg, q) \<Rightarrow> q * avg \<noteq> 150)"
  by (simp add: get_liquidity_at_level_def side_levels_def lower_buy one_sided_book
      total_notional_def well_formed_levels_def)

text \<open>
  Claim C9. On the book with asks \<open>[(100, 2), (101, 3)]\<close> and bids \<open>[(99, 2), (98, 3)]\<close>,
  a buy of 150 USD is filled within the first ask level at the average price 100 for the
  quantity 1.5, and its slippage against the mid price 99.5 is \<open>(100 / 99.5 - 1) * 100\<close>,
  which is 0.5025 to four decimal places.
\<close>

theorem scenario_buy_150:
  "get_liquidity_at_level
     (ob\<lparr>asks := [(100, 2), (101, 3)], bids := [(99, 2), (98, 3)]\<rparr>) 150 ''buy''
     = Inr (100, 3 / 2)
   \<and> calculate_slippage
        \<lparr>orderbook = ob\<lparr>asks := [(100, 2), (101, 3)], bids := [(99, 2), (98, 3)]\<rparr>,
          volatility = v\<rparr>
        150 ''buy'' = Inr ((100 / 99.5 - 1) * 100)
   \<and> \<bar>(100 / 99.5 - 1) * 100 - 0.5025\<bar> < (0.0001 :: real)"
  by (simp add: calculate_slippage_def get_liquidity_at_level_def side_levels_def lower_buy
      py_div_def Let_def)

section \<open>Properties of the cost estimator\<close>

lemmas history_eval =
  numeral_eq_Suc record_history_def Let_def max_history_def OrderBook_init_def

lemma update_wide:
  "update wide t s = (None, record_history t
     (s\<lparr>timestamp := Some 0, symbol := ''BTC-USDT-SWAP'', exchange := ''OKX'',
        asks := [(200, 1)], bids := [(100, 1)], last_update_time := t\<rparr>))"
  by (simp add: wide_def update_def snapshot_of_def parse_timestamp_def getitem_def
      read_levels_def py_float_def sort_asks_def sort_bids_def Let_def MAX_ORDERBOOK_LEVELS_def)

lemma update_tight:
  "update tight t s = (None, record_history t
     (s\<lparr>timestamp := Some 0, symbol := ''BTC-USDT-SWAP'', exchange := ''OKX'',
        asks := [(100.05, 1)], bids := [(99.95, 1)], last_update_time := t\<rparr>))"
  by (simp add: tight_def update_def snapshot_of_def parse_timestamp_def getitem_def
      read_levels_def py_float_def sort_asks_def sort_bids_def Let_def MAX_ORDERBOOK_LEVELS_def)

lemma quiet_book_eval:
  "asks quiet_book = [(200, 1)]" "bids quiet_book = [(100, 1)]"
  "mid_price_history quiet_book = replicate 11 150"
  "volume_history quiet_book = replicate 11 (1, 0)"
  by (simp_all add: quiet_book_def update_wide history_eval)

lemma ten_ticks_eval:
  "asks ten_ticks = [(100.05, 1)]" "bids ten_ticks = [(99.95, 1)]"
  "mid_price_history ten_ticks = replicate 10 100"
  "volume_history ten_ticks = replicate 10 (1, 2)"
  by (simp_all add: ten_ticks_def update_tight history_eval)

lemma eleven_ticks_eval:
  "asks eleven_ticks = [(100.05, 1)]" "bids eleven_ticks = [(99.95, 1)]"
  "mid_price_history eleven_ticks = replicate 11 100"
  "volume_history eleven_ticks = replicate 11 (1, 2)"
  by (simp_all add: eleven_ticks_def update_tight history_eval)

lemma simulator_calculator_fields [simp]:
  "orderbook (simulator_calculator ob) = ob" "volatility (simulator_calculator ob) = 0.02"
  by (simp_all add: simulator_calculator_def update_volatility_def MarketImpactCalculator_init_def)

text \<open>
  Claim C2 does not hold of the code. After eleven accepted snapshots with asks
  \<open>[(200, 1)]\<close> and bids \<open>[(100, 1)]\<close> every near-touch-volume sample is zero, the daily
  volume estimate is zero, and \<open>get_net_cost\<close> for 100 USD raises \<open>ZeroDivisionError\<close>
  out of \<open>calculate_market_impact\<close>, where no guard covers a zero estimate; the slippage
  of the same call is defined.
\<close>

theorem net_cost_divides_by_zero:
  "volume_history quiet_book = replicate 11 (1, 0)
   \<and> daily_volume_estimate quiet_book 10000000000 = Inr 0
   \<and> calculate_slippage (simulator_calculator quiet_book) 100 ''buy''
       = Inr ((200 / 150 - 1) * 100)
   \<and> calculate_market_impact (simulator_calculator quiet_book) 100 ''buy'' 10000000000
       = Inl ZeroDivisionError
   \<and> get_net_cost (simulator_calculator quiet_book) 100 ''vip0'' ''buy'' = Inl ZeroDivisionError"
  by (simp add: get_net_cost_def calculate_slippage_def calculate_fees_def
      calculate_market_impact_def daily_volume_estimate_def estimate_maker_taker_proportion_def
      relative_size_of_def get_liquidity_at_level_def side_levels_def lower_buy py_div_def
      quiet_book_eval last_n_def Let_def sum_list_replicate)

text \<open>
  Claim C4, as the code has it. The daily volume estimate is the average of the last 10
  near-touch-volume samples times 86400 when the volume history holds more than 10
  samples, and \<open>market_cap * 0.05\<close> when it holds 10 or fewer. With a non-empty mid-price
  history and a non-zero estimate the impact is
  \<open>sigma * sqrt (1 / 86400) * sqrt (quantity / estimate) * 100\<close>, where \<open>sigma\<close> is the
  volatility when positive and 0.02 otherwise; with an empty mid-price history it is 0.
\<close>

theorem market_impact_formula:
  "(length (volume_history (orderbook c)) > 10 \<longrightarrow>
      daily_volume_estimate (orderbook c) market_cap =
        Inr (sum_list (map snd (last_n 10 (volume_history (orderbook c)))) / 10 * 86400))
   \<and> (length (volume_history (orderbook c)) \<le> 10 \<longrightarrow>
      daily_volume_estimate (orderbook c) market_cap = Inr (market_cap * 0.05))
   \<and> (mid_price_history (orderbook c) \<noteq> []
        \<and> daily_volume_estimate (orderbook c) market_cap = Inr dve \<and> dve \<noteq> 0 \<longrightarrow>
      calculate_market_impact c quantity side market_cap =
        Inr ((if volatility c > 0 then volatility c else 0.02)
               * sqrt (1 / 86400) * sqrt (quantity / dve) * 100))
   \<and> (mid_price_history (orderbook c) = [] \<longrightarrow>
      calculate_market_impact c quantity side market_cap = Inr 0)"
proof -
  have recent: "length (map snd (last_n 10 (volume_history (orderbook c)))) = 10"
    if "length (volume_history (orderbook c)) > 10"
    using that by (simp add: last_n_def)
  have "daily_volume_estimate (orderbook c) market_cap =
        Inr (sum_list (map snd (last_n 10 (volume_history (orderbook c)))) / 10 * 86400)"
    if "length (volume_history (orderbook c)) > 10"
    using that recent[OF that] by (auto simp: daily_volume_estimate_def py_div_def Let_def)
  moreover have "daily_volume_estimate (orderbook c) market_cap = Inr (market_cap * 0.05)"
    if "length (volume_history (orderbook c)) \<le> 10"
    using that by (simp add: daily_volume_estimate_def)
  moreover have "calculate_market_impact c quantity side market_cap =
        Inr ((if volatility c > 0 then volatility c else 0.02)
               * sqrt (1 / 86400) * sqrt (quantity / dve) * 100)"
    if "mid_price_history (orderbook c) \<noteq> []"
      "daily_volume_estimate (orderbook c) market_cap = Inr dve" "dve \<noteq> 0"
    using that by (simp add: calculate_market_impact_def py_div_def Let_def)
  moreover have "calculate_market_impact c quantity side market_cap = Inr 0"
    if "mid_price_history (orderbook c) = []"
    using that by (simp add: calculate_market_impact_def)
  ultimately show ?thesis
    by blast
qed

theorem market_impact_formula_witness:
  "length (volume_history eleven_ticks) = 11
   \<and> daily_volume_estimate eleven_ticks 10000000000 = Inr 172800
   \<and> calculate_market_impact \<lparr>orderbook = eleven_ticks, volatility = 0\<rparr> 100 ''buy'' 10000000000
       = Inr (0.02 * sqrt (1 / 86400) * sqrt (100 / 172800) * 100)"
proof -
  have len: "length (volume_history eleven_ticks) = 11"
    by (simp add: eleven_ticks_eval)
  have avg: "sum_list (map snd (last_n 10 (volume_history eleven_ticks))) / 10 * 86400 = 172800"
    by (simp add: eleven_ticks_eval last_n_def sum_list_replicate)
  have mid: "mid_price_history eleven_ticks \<noteq> []"
    by (simp add: eleven_ticks_eval)
  from market_impact_formula[of "\<lparr>orderbook = eleven_ticks, volatility = 0\<rparr>" 10000000000 172800 100 "''buy''"]
    len avg mid
  show ?thesis
    by simp
qed

text \<open>
  The claim as the specification words it fails at exactly 10 samples: their average
  times 86400 is 172800, and the code takes the fallback of 5 percent of the market
  capitalisation, which gives another impact.
\<close>

theorem ten_samples_use_fallback:
  "length (volume_history ten_ticks) = 10
   \<and> mid_price_history ten_ticks \<noteq> []
   \<and> sum_list (map snd (last_n 10 (volume_history ten_ticks))) / 10 * 86400 = 172800
   \<and> daily_volume_estimate ten_ticks 10000000000 = Inr 500000000
   \<and> calculate_market_impact (simulator_calculator ten_ticks) 100 ''buy'' 10000000000
       = Inr (0.02 * sqrt (1 / 86400) * sqrt (100 / 500000000) * 100)
   \<and> 0.02 * sqrt (1 / 86400) * sqrt (100 / 500000000) * 100
       \<noteq> 0.02 * sqrt (1 / 86400) * sqrt (100 / 172800) * (100::real)"
  by (simp add: calculate_market_impact_def daily_volume_estimate_def py_div_def
      ten_ticks_eval last_n_def Let_def sum_list_replicate)

subsection \<open>Maker and taker shares\<close>

lemma taker_share_strict: "r1 < r2 \<Longrightarrow> taker_share r2 < taker_share r1"
proof -
  assume "r1 < r2"
  then have "exp (r1 - 1) < exp (r2 - 1)"
    by simp
  moreover have "0 < 1 + exp (r1 - 1)" "0 < 1 + exp (r2 - 1)"
    by (simp_all add: add_pos_pos)
  ultimately show ?thesis
    by (simp add: taker_share_def frac_less2)
qed

lemma shift_at_top: "filterlim (\<lambda>r::real. r - 1) at_top at_top"
proof -
  have "LIM r at_top. (- 1 + r :: real) :> at_top"
    by (rule filterlim_tendsto_add_at_top[OF tendsto_const filterlim_ident])
  then show ?thesis
    by simp
qed

lemma shift_at_bot: "filterlim (\<lambda>r::real. r - 1) at_bot at_bot"
proof -
  have "(LIM r at_bot. (- 1 + r :: real) :> at_bot) \<longleftrightarrow> (LIM r at_bot. (r :: real) :> at_bot)"
    by (rule filterlim_tendsto_add_at_bot_iff[OF tendsto_const])
  then have "LIM r at_bot. (- 1 + r :: real) :> at_bot"
    by (simp add: filterlim_ident)
  then show ?thesis
    by simp
qed

lemma taker_share_at_top: "(taker_share \<longlongrightarrow> 0) at_top"
proof -
  have "LIM r at_top. exp (r - 1 :: real) :> at_top"
    by (rule filterlim_compose[OF exp_at_top shift_at_top])
  then have "LIM r at_top. 1 + exp (r - 1 :: real) :> at_top"
    by (rule filterlim_tendsto_add_at_top[OF tendsto_const])
  then have "((\<lambda>r::real. 100 / (1 + exp (r - 1))) \<longlongrightarrow> 0) at_top"
    by (rule real_tendsto_divide_at_top[OF tendsto_const])
  then show ?thesis
    by (simp add: taker_share_def[abs_def])
qed

lemma taker_share_at_bot: "(taker_share \<longlongrightarrow> 100) at_bot"
proof -
  have "((\<lambda>r::real. exp (r - 1)) \<longlongrightarrow> 0) at_bot"
    by (rule filterlim_compose[OF exp_at_bot shift_at_bot])
  then have "((\<lambda>r::real. 100 / (1 + exp (r - 1))) \<longlongrightarrow> 100 / (1 + 0)) at_bot"
    by (intro tendsto_intros) simp_all
  then show ?thesis
    by (simp add: taker_share_def[abs_def])
qed

text \<open>
  Claim C7. For every book and every quantity greater than 0,
  \<open>estimate_maker_taker_proportion\<close> returns a maker and a taker percentage that add up
  to 100. On a two-sided book the taker percentage is \<open>taker_share\<close> of the relative size
  (the notional of the best ask plus that of the best bid, over twice the quantity);
  \<open>taker_share\<close> is strictly decreasing, tends to 100 towards minus infinity and to 0
  towards plus infinity. When a side of the book is empty the result is \<open>(0, 100)\<close>.
\<close>

theorem maker_taker_split:
  "(0 < quantity \<longrightarrow>
      (\<exists>m t. estimate_maker_taker_proportion c quantity = Inr (m, t) \<and> m + t = 100
         \<and> (asks (orderbook c) = [] \<or> bids (orderbook c) = [] \<longrightarrow> m = 0 \<and> t = 100)
         \<and> (\<forall>a as b bs. asks (orderbook c) = a # as \<and> bids (orderbook c) = b # bs \<longrightarrow>
               t = taker_share ((snd a * fst a + snd b * fst b) / (2 * quantity)))))
   \<and> (\<forall>r1 r2. r1 < r2 \<longrightarrow> taker_share r2 < taker_share r1)
   \<and> (taker_share \<longlongrightarrow> 100) at_bot
   \<and> (taker_share \<longlongrightarrow> 0) at_top"
proof -
  have split: "\<exists>m t. estimate_maker_taker_proportion c quantity = Inr (m, t) \<and> m + t = 100
         \<and> (asks (orderbook c) = [] \<or> bids (orderbook c) = [] \<longrightarrow> m = 0 \<and> t = 100)
         \<and> (\<forall>a as b bs. asks (orderbook c) = a # as \<and> bids (orderbook c) = b # bs \<longrightarrow>
               t = taker_share ((snd a * fst a + snd b * fst b) / (2 * quantity)))"
    if "0 < quantity"
  proof (cases "asks (orderbook c)")
    case Nil
    then show ?thesis
      by (simp add: estimate_maker_taker_proportion_def)
  next
    case (Cons a as)
    note asks = this
    show ?thesis
    proof (cases "bids (orderbook c)")
      case Nil
      then show ?thesis
        by (simp add: estimate_maker_taker_proportion_def asks)
    next
      case (Cons b bs)
      then show ?thesis
        using that
        by (simp add: estimate_maker_taker_proportion_def asks relative_size_of_def py_div_def
            Let_def)
    qed
  qed
  with taker_share_strict taker_share_at_bot taker_share_at_top show ?thesis
    by blast
qed

theorem maker_taker_split_witness:
  "(0::real) < 150
   \<and> (\<exists>m t. estimate_maker_taker_proportion (simulator_calculator scenario_book) 150 = Inr (m, t)
         \<and> m + t = 100 \<and> t = taker_share (398 / 300))
   \<and> (\<exists>m t. estimate_maker_taker_proportion (simulator_calculator (OrderBook_init 0)) 150 = Inr (m, t)
         \<and> m = 0 \<and> t = 100)"
proof -
  have q: "(0::real) < 150"
    by simp
  have empty: "asks (orderbook (simulator_calculator (OrderBook_init 0))) = []"
    by (simp add: OrderBook_init_def)
  from maker_taker_split[of 150 "simulator_calculator scenario_book"] q
  obtain m t where
    "estimate_maker_taker_proportion (simulator_calculator scenario_book) 150 = Inr (m, t)"
    "m + t = 100" "t = taker_share (398 / 300)"
    by (auto simp: scenario_book_sides)
  moreover from maker_taker_split[of 150 "simulator_calculator (OrderBook_init 0)"] q empty
  obtain m' t' where
    "estimate_maker_taker_proportion (simulator_calculator (OrderBook_init 0)) 150 = Inr (m', t')"
    "m' = 0" "t' = 100"
    by blast
  ultimately show ?thesis
    using q by blast
qed

subsection \<open>Fees\<close>

lemma fee_structure_dom:
  "fee_structure k \<noteq> None \<longleftrightarrow> k \<in> {''vip0'', ''vip1'', ''vip2'', ''vip3'', ''vip4'', ''vip5''}"
  by (simp add: fee_structure_def)

lemma tier_fees_unknown:
  "lower fee_tier \<notin> {''vip0'', ''vip1'', ''vip2'', ''vip3'', ''vip4'', ''vip5''} \<Longrightarrow>
   tier_fees fee_tier = tier_fees ''vip0''"
proof -
  assume "lower fee_tier \<notin> {''vip0'', ''vip1'', ''vip2'', ''vip3'', ''vip4'', ''vip5''}"
  then have "fee_structure (lower fee_tier) = None"
    using fee_structure_dom[of "lower fee_tier"] by blast
  moreover have "tier_fees ''vip0'' = \<lparr>maker = 0.0008, taker = 0.0010\<rparr>"
    by (simp add: tier_fees_def fee_structure_def lower_def lower_char_def)
  ultimately show ?thesis
    by (simp add: tier_fees_def)
qed

lemma tier_fees_lower: "lower t1 = lower t2 \<Longrightarrow> tier_fees t1 = tier_fees t2"
  by (simp add: tier_fees_def)

text \<open>
  Claim C8. A fee tier whose lower-cased name is none of \<open>vip0\<close> to \<open>vip5\<close> gives the fee
  of \<open>vip0\<close>; two tier names that agree after lower-casing give the same fee; the fee is
  the maker share times the maker rate plus the taker share times the taker rate of the
  tier, as a percentage; and the fee of a report is computed from the very maker and
  taker percentages the report shows.
\<close>

theorem fees_tier_lookup:
  "(lower fee_tier \<notin> {''vip0'', ''vip1'', ''vip2'', ''vip3'', ''vip4'', ''vip5''} \<longrightarrow>
      calculate_fees c quantity fee_tier = calculate_fees c quantity ''vip0'')
   \<and> (lower fee_tier = lower other_tier \<longrightarrow>
      calculate_fees c quantity fee_tier = calculate_fees c quantity other_tier)
   \<and> (\<forall>m t. estimate_maker_taker_proportion c quantity = Inr (m, t) \<longrightarrow>
      calculate_fees c quantity fee_tier =
        Inr ((m / 100 * maker (tier_fees fee_tier) + t / 100 * taker (tier_fees fee_tier)) * 100))
   \<and> (\<forall>report. get_net_cost c quantity fee_tier side = Inr report \<longrightarrow>
      estimate_maker_taker_proportion c quantity = Inr (maker_pct report, taker_pct report)
      \<and> fee_pct report =
          (maker_pct report / 100 * maker (tier_fees fee_tier)
           + taker_pct report / 100 * taker (tier_fees fee_tier)) * 100)"
proof -
  have "calculate_fees c quantity fee_tier = calculate_fees c quantity ''vip0''"
    if "lower fee_tier \<notin> {''vip0'', ''vip1'', ''vip2'', ''vip3'', ''vip4'', ''vip5''}"
    using tier_fees_unknown[OF that] by (simp add: calculate_fees_def)
  moreover have "calculate_fees c quantity fee_tier = calculate_fees c quantity other_tier"
    if "lower fee_tier = lower other_tier"
    using tier_fees_lower[OF that] by (simp add: calculate_fees_def)
  moreover have formula: "calculate_fees c quantity fee_tier =
        Inr ((m / 100 * maker (tier_fees fee_tier) + t / 100 * taker (tier_fees fee_tier)) * 100)"
    if "estimate_maker_taker_proportion c quantity = Inr (m, t)" for m t
    using that by (simp add: calculate_fees_def Let_def)
  moreover have "estimate_maker_taker_proportion c quantity = Inr (maker_pct report, taker_pct report)
      \<and> fee_pct report =
          (maker_pct report / 100 * maker (tier_fees fee_tier)
           + taker_pct report / 100 * taker (tier_fees fee_tier)) * 100"
    if "get_net_cost c quantity fee_tier side = Inr report" for report
    using that formula
    by (auto simp: get_net_cost_def split: sum.splits prod.splits)
  ultimately show ?thesis
    by blast
qed

lemma lower_samples:
  "lower ''Gold'' = ''gold''" "lower ''VIP3'' = ''vip3''" "lower ''vip3'' = ''vip3''"
  by (simp_all add: lower_def lower_char_def char_of_def bit_Suc_0_iff)

theorem fees_tier_lookup_witness:
  "lower ''Gold'' \<notin> {''vip0'', ''vip1'', ''vip2'', ''vip3'', ''vip4'', ''vip5''}
   \<and> calculate_fees (simulator_calculator scenario_book) 150 ''Gold''
       = calculate_fees (simulator_calculator scenario_book) 150 ''vip0''
   \<and> lower ''VIP3'' = lower ''vip3''
   \<and> calculate_fees (simulator_calculator scenario_book) 150 ''VIP3''
       = calculate_fees (simulator_calculator scenario_book) 150 ''vip3''
   \<and> estimate_maker_taker_proportion (simulator_calculator (OrderBook_init 0)) 150 = Inr (0, 100)
   \<and> calculate_fees (simulator_calculator (OrderBook_init 0)) 150 ''VIP3'' = Inr (7 / 100)"
proof -
  have unknown: "lower ''Gold'' \<notin> {''vip0'', ''vip1'', ''vip2'', ''vip3'', ''vip4'', ''vip5''}"
    by (simp add: lower_samples)
  have same: "lower ''VIP3'' = lower ''vip3''"
    by (simp add: lower_samples)
  have split: "estimate_maker_taker_proportion (simulator_calculator (OrderBook_init 0)) 150 = Inr (0, 100)"
    by (simp add: estimate_maker_taker_proportion_def OrderBook_init_def)
  have rates: "tier_fees ''VIP3'' = \<lparr>maker = 0.0005, taker = 0.0007\<rparr>"
    by (simp add: tier_fees_def fee_structure_def lower_samples)
  from fees_tier_lookup[where fee_tier = "''Gold''" and c = "simulator_calculator scenario_book"
      and quantity = 150] unknown
  have a: "calculate_fees (simulator_calculator scenario_book) 150 ''Gold''
       = calculate_fees (simulator_calculator scenario_book) 150 ''vip0''"
    by blast
  from fees_tier_lookup[where fee_tier = "''VIP3''" and other_tier = "''vip3''"
      and c = "simulator_calculator scenario_book" and quantity = 150] same
  have b: "calculate_fees (simulator_calculator scenario_book) 150 ''VIP3''
       = calculate_fees (simulator_calculator scenario_book) 150 ''vip3''"
    by blast
  from fees_tier_lookup[where fee_tier = "''VIP3''"
      and c = "simulator_calculator (OrderBook_init 0)" and quantity = 150] split
  have "calculate_fees (simulator_calculator (OrderBook_init 0)) 150 ''VIP3'' =
        Inr ((0 / 100 * maker (tier_fees ''VIP3'') + 100 / 100 * taker (tier_fees ''VIP3'')) * 100)"
    by blast
  then have c: "calculate_fees (simulator_calculator (OrderBook_init 0)) 150 ''VIP3'' = Inr (7 / 100)"
    by (simp add: rates)
  from unknown same split a b c show ?thesis
    by blast
qed

end
